theory Spec2Isabelle
  imports Complex_Main "HOL-Library.Word"
begin

unbundle bit_operations_syntax

section \<open>Errors\<close>

text \<open>
  The exceptions the modelled code raises or lets through. The specification's
  \<open>InvalidArgument\<close> and \<open>InvalidState\<close> are both Python's \<open>ValueError\<close> in the code.
  \<open>Fatal\<close> stands for any other exception of a collaborator.
\<close>

datatype error = ValueError | StopIteration | AssertionError | OSError | Fatal

section \<open>Strings and the MD5 digest\<close>

text \<open>
  A Python \<open>str\<close> is represented by its UTF-8 bytes, a \<open>string\<close> of HOL (a list of
  8-bit characters); \<open>str.encode\<close> then reads each character as a byte, and
  \<open>" ".join\<close> commutes with it.
\<close>

type_synonym bytes = "8 word list"

definition str_encode :: "string \<Rightarrow> bytes" where
  "str_encode s = map of_char s"

text \<open>\<open>sep.join(xs)\<close> of Python.\<close>

fun str_join :: "string \<Rightarrow> string list \<Rightarrow> string" where
  "str_join sep [] = []"
| "str_join sep [x] = x"
| "str_join sep (x # y # ys) = x @ sep @ str_join sep (y # ys)"

text \<open>
  \<open>hashlib.md5(data).hexdigest()\<close>: the MD5 message digest of RFC 1321, written out in
  lower-case hexadecimal. The message is padded with the byte 0x80, zero bytes up to
  56 modulo 64 and the bit length as 64 bits, least significant byte first; each block
  of 64 bytes, read as sixteen little-endian 32-bit words, goes through 64 rounds.
\<close>

type_synonym md5_state = "32 word \<times> 32 word \<times> 32 word \<times> 32 word"

definition md5_K :: "32 word list" where
  "md5_K = [
    0xd76aa478, 0xe8c7b756, 0x242070db, 0xc1bdceee,
    0xf57c0faf, 0x4787c62a, 0xa8304613, 0xfd469501,
    0x698098d8, 0x8b44f7af, 0xffff5bb1, 0x895cd7be,
    0x6b901122, 0xfd987193, 0xa679438e, 0x49b40821,
    0xf61e2562, 0xc040b340, 0x265e5a51, 0xe9b6c7aa,
    0xd62f105d, 0x02441453, 0xd8a1e681, 0xe7d3fbc8,
    0x21e1cde6, 0xc33707d6, 0xf4d50d87, 0x455a14ed,
    0xa9e3e905, 0xfcefa3f8, 0x676f02d9, 0x8d2a4c8a,
    0xfffa3942, 0x8771f681, 0x6d9d6122, 0xfde5380c,
    0xa4beea44, 0x4bdecfa9, 0xf6bb4b60, 0xbebfbc70,
    0x289b7ec6, 0xeaa127fa, 0xd4ef3085, 0x04881d05,
    0xd9d4d039, 0xe6db99e5, 0x1fa27cf8, 0xc4ac5665,
    0xf4292244, 0x432aff97, 0xab9423a7, 0xfc93a039,
    0x655b59c3, 0x8f0ccc92, 0xffeff47d, 0x85845dd1,
    0x6fa87e4f, 0xfe2ce6e0, 0xa3014314, 0x4e0811a1,
    0xf7537e82, 0xbd3af235, 0x2ad7d2bb, 0xeb86d391]"

definition md5_S :: "nat list" where
  "md5_S = [
    7, 12, 17, 22, 7, 12, 17, 22, 7, 12, 17, 22, 7, 12, 17, 22,
    5, 9, 14, 20, 5, 9, 14, 20, 5, 9, 14, 20, 5, 9, 14, 20,
    4, 11, 16, 23, 4, 11, 16, 23, 4, 11, 16, 23, 4, 11, 16, 23,
    6, 10, 15, 21, 6, 10, 15, 21, 6, 10, 15, 21, 6, 10, 15, 21]"

definition md5_pad :: "bytes \<Rightarrow> bytes" where
  "md5_pad msg =
     (let n = length msg;
          zeros = (55 + 64 - n mod 64) mod 64;
          bits = (word_of_nat (8 * n) :: 64 word)
      in msg @ [0x80] @ replicate zeros 0 @
         map (\<lambda>i. ucast (drop_bit (8 * i) bits)) [0..<8])"

definition le32 :: "bytes \<Rightarrow> 32 word" where
  "le32 bs = foldr (\<lambda>b w. push_bit 8 w OR ucast b) bs 0"

fun chunks :: "nat \<Rightarrow> 'a list \<Rightarrow> 'a list list" where
  "chunks n [] = []"
| "chunks n (x # xs) =
     (if n = 0 then [] else take n (x # xs) # chunks n (drop n (x # xs)))"

definition md5_round :: "32 word list \<Rightarrow> md5_state \<Rightarrow> nat \<Rightarrow> md5_state" where
  "md5_round M st i =
     (case st of (a, b, c, d) \<Rightarrow>
        let (f, g) =
              (if i < 16 then ((b AND c) OR (NOT b AND d), i)
               else if i < 32 then ((d AND b) OR (NOT d AND c), (5 * i + 1) mod 16)
               else if i < 48 then (b XOR c XOR d, (3 * i + 5) mod 16)
               else (c XOR (b OR NOT d), (7 * i) mod 16));
            f' = f + a + md5_K ! i + M ! g
        in (d, b + word_rotl (md5_S ! i) f', b, c))"

definition md5_block :: "md5_state \<Rightarrow> bytes \<Rightarrow> md5_state" where
  "md5_block st blk =
     (case st of (a0, b0, c0, d0) \<Rightarrow>
        case foldl (md5_round (map le32 (chunks 4 blk))) st [0..<64] of
          (a, b, c, d) \<Rightarrow> (a0 + a, b0 + b, c0 + c, d0 + d))"

definition md5_digest :: "bytes \<Rightarrow> bytes" where
  "md5_digest msg =
     (case foldl md5_block (0x67452301, 0xefcdab89, 0x98badcfe, 0x10325476)
             (chunks 64 (md5_pad msg)) of
        (a, b, c, d) \<Rightarrow>
          concat (map (\<lambda>w. map (\<lambda>i. ucast (drop_bit (8 * i) w)) [0..<4]) [a, b, c, d]))"

definition hex_digit :: "nat \<Rightarrow> char" where
  "hex_digit n = ''0123456789abcdef'' ! (n mod 16)"

definition hex_byte :: "8 word \<Rightarrow> string" where
  "hex_byte b = [hex_digit (unat b div 16), hex_digit (unat b mod 16)]"

definition hashlib_md5_hexdigest :: "bytes \<Rightarrow> string" where
  "hashlib_md5_hexdigest msg = concat (map hex_byte (md5_digest msg))"

text \<open>Two different texts with one digest.\<close>

definition md5_collision :: "string \<Rightarrow> string \<Rightarrow> bool" where
  "md5_collision x y \<longleftrightarrow>
     x \<noteq> y \<and> hashlib_md5_hexdigest (str_encode x) = hashlib_md5_hexdigest (str_encode y)"

section \<open>The collaborators of the Manager\<close>

text \<open>
  \<open>Manager.md5\<close> and \<open>Manager.with_identifier_cols\<close> read an optimizer, a model, an
  adaptor, an embedder and a storage only through \<open>str\<close>; each is represented by that
  text, its descriptor. A corpus has the handle \<open>corpus.index\<close>, whose field \<open>index\<close>
  is the underlying index, and \<open>corpus.storage\<close>.
\<close>

type_synonym descriptor = string

record stateful_index =
  index :: descriptor

record corpus =
  index :: stateful_index
  storage :: descriptor

section \<open>Manager.md5\<close>

text \<open>The list \<open>data\<close> of \<open>Manager.md5\<close>, each item under \<open>str\<close>.\<close>

definition md5_data ::
  "descriptor \<Rightarrow> corpus \<Rightarrow> descriptor \<Rightarrow> descriptor \<Rightarrow> descriptor \<Rightarrow> string \<Rightarrow> string list"
where
  "md5_data optimizer corpus model adaptor embedder time =
     [optimizer, embedder, stateful_index.index (corpus.index corpus), storage corpus,
      model, adaptor, time]"

definition md5 ::
  "descriptor \<Rightarrow> corpus \<Rightarrow> descriptor \<Rightarrow> descriptor \<Rightarrow> descriptor \<Rightarrow> string \<Rightarrow> string"
where
  "md5 optimizer corpus model adaptor embedder time =
     hashlib_md5_hexdigest
       (str_encode (str_join '' '' (md5_data optimizer corpus model adaptor embedder time)))"

section \<open>Tables\<close>

text \<open>
  A pandas \<open>DataFrame\<close>: its length and its columns in order, each a label with one
  cell per row. Scores are floating-point numbers that the Manager only stores and
  copies; they are carried as \<open>real\<close>. No index labels are kept: \<open>to_csv\<close> is called
  with \<open>index=False\<close>.
\<close>

datatype cell = Text string | Number real | NaN

record dataframe =
  nrows :: nat
  data :: "(string \<times> cell list) list"

text \<open>
  \<open>d[k] = v\<close> on an ordered dictionary or on the columns of a table: an existing key
  keeps its place and takes the new value, a new key goes to the end.
\<close>

fun set_item :: "'k \<Rightarrow> 'v \<Rightarrow> ('k \<times> 'v) list \<Rightarrow> ('k \<times> 'v) list" where
  "set_item k v [] = [(k, v)]"
| "set_item k v ((k', v') # kvs) =
     (if k' = k then (k, v) # kvs else (k', v') # set_item k v kvs)"

text \<open>\<open>pd.concat(dfs)\<close>: the rows one table after the other, the columns in the order of
  their first appearance, \<open>NaN\<close> where a table has no such column.\<close>

definition column_or_nan :: "string \<Rightarrow> dataframe \<Rightarrow> cell list" where
  "column_or_nan c df =
     (case map_of (data df) c of Some v \<Rightarrow> v | None \<Rightarrow> replicate (nrows df) NaN)"

definition pd_concat :: "dataframe list \<Rightarrow> dataframe" where
  "pd_concat dfs =
     \<lparr>nrows = sum_list (map nrows dfs),
      data = map (\<lambda>c. (c, concat (map (column_or_nan c) dfs)))
               (rev (remdups (rev (concat (map (\<lambda>df. map fst (data df)) dfs)))))\<rparr>"

section \<open>The file system, the objects and the clock\<close>

text \<open>
  A path is the list of its components. The file system is a list of entries in
  directory order. A regular file is either the CSV text of a table (what
  \<open>to_csv\<close> writes and \<open>read_csv\<close> reads back) or any other file. The root always
  exists.
\<close>

type_synonym path = "string list"

datatype node = Directory | CsvFile dataframe | OtherFile

type_synonym fs = "(path \<times> node) list"

definition node_at :: "fs \<Rightarrow> path \<Rightarrow> node option" where
  "node_at files p = (if p = [] then Some Directory else map_of files p)"

definition path_exists :: "fs \<Rightarrow> path \<Rightarrow> bool" where
  "path_exists files p \<longleftrightarrow> node_at files p \<noteq> None"

definition is_dir :: "fs \<Rightarrow> path \<Rightarrow> bool" where
  "is_dir files p \<longleftrightarrow> node_at files p = Some Directory"

text \<open>\<open>Path.mkdir(parents=True, exist_ok=True)\<close>, over the prefixes of the path from the
  shortest.\<close>

fun mkdirs :: "path list \<Rightarrow> fs \<Rightarrow> error + fs" where
  "mkdirs [] files = Inr files"
| "mkdirs (q # qs) files =
     (case node_at files q of
        None \<Rightarrow> mkdirs qs (files @ [(q, Directory)])
      | Some Directory \<Rightarrow> mkdirs qs files
      | Some _ \<Rightarrow> Inl OSError)"

definition mkdir :: "fs \<Rightarrow> path \<Rightarrow> error + fs" where
  "mkdir files p = mkdirs (map (\<lambda>n. take n p) [1..<Suc (length p)]) files"

definition endswith :: "string \<Rightarrow> string \<Rightarrow> bool" where
  "endswith s suffix \<longleftrightarrow>
     length suffix \<le> length s \<and> drop (length s - length suffix) s = suffix"

text \<open>The entries of a directory, and \<open>Path(path).glob("*.csv")\<close>: the entries whose
  name ends in \<open>.csv\<close>; nothing when the path is no directory.\<close>

definition entries :: "fs \<Rightarrow> path \<Rightarrow> path list" where
  "entries files p = filter (\<lambda>q. q \<noteq> [] \<and> butlast q = p) (map fst files)"

definition glob_csv :: "fs \<Rightarrow> path \<Rightarrow> path list" where
  "glob_csv files p =
     (if is_dir files p then filter (\<lambda>q. endswith (last q) ''.csv'') (entries files p)
      else [])"

definition read_csv :: "fs \<Rightarrow> path \<Rightarrow> error + dataframe" where
  "read_csv files q =
     (case node_at files q of
        Some (CsvFile t) \<Rightarrow> Inr t
      | Some OtherFile \<Rightarrow> Inl ValueError
      | Some Directory \<Rightarrow> Inl OSError
      | None \<Rightarrow> Inl OSError)"

text \<open>
  The clock that \<open>datetime.now()\<close> reads, and \<open>strftime("%Y-%m-%d-%H-%M-%S")\<close>: the year
  on four digits (a \<open>datetime\<close> has a year up to 9999), the other fields on two.
\<close>

record datetime =
  year :: nat
  month :: nat
  day :: nat
  hour :: nat
  minute :: nat
  second :: nat

definition zero_pad :: "nat \<Rightarrow> nat \<Rightarrow> string" where
  "zero_pad w n = map (\<lambda>i. ''0123456789'' ! (n div 10 ^ i mod 10)) (rev [0..<w])"

definition strftime :: "datetime \<Rightarrow> string" where
  "strftime t =
     zero_pad 4 (year t) @ ''-'' @ zero_pad 2 (month t) @ ''-'' @ zero_pad 2 (day t) @ ''-'' @
     zero_pad 2 (hour t) @ ''-'' @ zero_pad 2 (minute t) @ ''-'' @ zero_pad 2 (second t)"

text \<open>
  The state the Manager works in: the \<open>DataFrame\<close> objects by reference (a reference
  below \<open>fresh\<close> is allocated), the file system and the clock.
\<close>

record world =
  frames :: "nat \<Rightarrow> dataframe"
  fresh :: nat
  files :: fs
  now :: datetime

section \<open>The Manager\<close>

text \<open>
  The column labels of the module \<open>columns\<close>, whose file is not among the sources:
  they are a parameter.
\<close>

record column_names =
  OPTIMIZER :: string
  MODEL :: string
  ADAPTOR :: string
  INDEX :: string
  STORAGE :: string
  EMBEDDER :: string
  TIME :: string
  MD5 :: string

text \<open>
  A Manager: the output directory if any, the start time \<open>_start\<close> and the examinator,
  which is known here only by its method \<open>examine\<close>.
\<close>

record manager =
  path :: "path option"
  start :: string
  examinator :: "stateful_index \<Rightarrow> (int \<times> real) list \<Rightarrow> error + dataframe"

definition current :: "world \<Rightarrow> string" where
  "current w = strftime (now w)"

text \<open>\<open>Manager.__init__\<close>; \<open>presets\<close> is what \<open>Examinator.presets()\<close> returns.\<close>

definition Manager_init ::
  "(stateful_index \<Rightarrow> (int \<times> real) list \<Rightarrow> error + dataframe) \<Rightarrow> path option \<Rightarrow> world \<Rightarrow>
     error + manager \<times> world"
where
  "Manager_init presets p w =
     (case p of
        None \<Rightarrow> Inr (\<lparr>path = None, start = current w, examinator = presets\<rparr>, w)
      | Some q \<Rightarrow>
          if path_exists (files w) q \<and> \<not> is_dir (files w) q then Inl ValueError
          else
            (case mkdir (files w) q of
               Inl e \<Rightarrow> Inl e
             | Inr files' \<Rightarrow>
                 Inr (\<lparr>path = Some q, start = current (w\<lparr>files := files'\<rparr>),
                        examinator = presets\<rparr>,
                      w\<lparr>files := files'\<rparr>)))"

text \<open>\<open>df.copy()\<close>: a new object with the same contents.\<close>

definition df_copy :: "world \<Rightarrow> nat \<Rightarrow> nat \<times> world" where
  "df_copy w df =
     (fresh w, w\<lparr>frames := (frames w)(fresh w := frames w df), fresh := Suc (fresh w)\<rparr>)"

text \<open>The local function \<open>assign\<close>: \<open>df[column] = [data] * len(df)\<close>, in place.\<close>

definition assign :: "nat \<Rightarrow> string \<Rightarrow> string \<Rightarrow> world \<Rightarrow> world" where
  "assign df column d w =
     w\<lparr>frames := (frames w)
        (df := (frames w df)
           \<lparr>data := set_item column (replicate (nrows (frames w df)) (Text d))
                      (data (frames w df))\<rparr>)\<rparr>"

definition with_identifier_cols ::
  "manager \<Rightarrow> column_names \<Rightarrow> world \<Rightarrow> nat \<Rightarrow> descriptor \<Rightarrow> corpus \<Rightarrow> descriptor \<Rightarrow>
     descriptor \<Rightarrow> descriptor \<Rightarrow> string \<times> nat \<times> world"
where
  "with_identifier_cols self columns w df optimizer corpus model adaptor embedder =
     (case df_copy w df of
        (df', w0) \<Rightarrow>
          let md5' = md5 optimizer corpus model adaptor embedder (start self);
              w1 = assign df' (OPTIMIZER columns) optimizer w0;
              w2 = assign df' (MODEL columns) model w1;
              w3 = assign df' (ADAPTOR columns) adaptor w2;
              w4 = assign df' (INDEX columns) (stateful_index.index (corpus.index corpus)) w3;
              w5 = assign df' (STORAGE columns) (storage corpus) w4;
              w6 = assign df' (EMBEDDER columns) embedder w5;
              w7 = assign df' (TIME columns) (start self) w6;
              w8 = assign df' (MD5 columns) md5' w7
          in (md5', df', w8))"

text \<open>\<open>scores.to_csv(target, index=False)\<close>: the directory must exist and the target
  be no directory; an existing file is overwritten in its place.\<close>

definition to_csv :: "world \<Rightarrow> nat \<Rightarrow> path \<Rightarrow> (error + unit) \<times> world" where
  "to_csv w df target =
     (if target \<noteq> [] \<and> is_dir (files w) (butlast target) \<and>
         node_at (files w) target \<noteq> Some Directory
      then (Inr (), w\<lparr>files := set_item target (CsvFile (frames w df)) (files w)\<rparr>)
      else (Inl OSError, w))"

text \<open>\<open>Manager.save\<close>: the result, and the state it leaves, also when it raises.\<close>

definition save ::
  "manager \<Rightarrow> column_names \<Rightarrow> world \<Rightarrow> nat \<Rightarrow> descriptor \<Rightarrow> corpus \<Rightarrow> descriptor \<Rightarrow>
     descriptor \<Rightarrow> descriptor \<Rightarrow> (error + unit) \<times> world"
where
  "save self columns w scores optimizer corpus model adaptor embedder =
     (case with_identifier_cols self columns w scores optimizer corpus model adaptor embedder of
        (md5', scores', w') \<Rightarrow>
          (case path self of
             None \<Rightarrow> (Inl ValueError, w')
           | Some p \<Rightarrow> to_csv w' scores' (p @ [md5' @ ''.csv''])))"

text \<open>The list comprehension of \<open>Manager.load\<close> stops at the first file that fails.\<close>

fun read_all :: "fs \<Rightarrow> path list \<Rightarrow> error + dataframe list" where
  "read_all fs [] = Inr []"
| "read_all fs (q # qs) =
     (case read_csv fs q of
        Inl e \<Rightarrow> Inl e
      | Inr t \<Rightarrow> (case read_all fs qs of Inl e \<Rightarrow> Inl e | Inr ts \<Rightarrow> Inr (t # ts)))"

definition load :: "fs \<Rightarrow> path \<Rightarrow> error + dataframe" where
  "load fs p =
     (case read_all fs (glob_csv fs p) of
        Inl e \<Rightarrow> Inl e
      | Inr dfs \<Rightarrow> if dfs = [] then Inl ValueError else Inr (pd_concat dfs))"

section \<open>The run loop\<close>

text \<open>
  An optimizer is a state and its method \<open>step\<close>, which returns the mapping of the
  step and the next state, or raises: \<open>StopIteration\<close> when it is exhausted, anything
  else on failure. A mapping is the list of its items.
\<close>

type_synonym results = "(int \<times> real) list"

type_synonym 's step = "'s \<Rightarrow> error + results \<times> 's"

text \<open>
  The generator \<open>Manager._launch\<close> (here \<open>launch\<close>), run to its end: the mappings it
  yields, in order. The loop variable \<open>i\<close> runs over \<open>range(steps)\<close>, or over \<open>itertools.count()\<close> when
  \<open>steps\<close> is \<open>None\<close>; that loop need not end, and then the value is \<open>None\<close>.
\<close>

partial_function (option) launch_loop ::
  "'s step \<Rightarrow> 's \<Rightarrow> int option \<Rightarrow> nat \<Rightarrow> results list \<Rightarrow> (error + results list) option"
where
  "launch_loop step s steps i yielded =
     (if (case steps of None \<Rightarrow> False | Some n \<Rightarrow> n \<le> int i) then Some (Inr yielded)
      else
        (case step s of
           Inl e \<Rightarrow> if e = StopIteration then Some (Inr yielded) else Some (Inl e)
         | Inr (res, s') \<Rightarrow> launch_loop step s' steps (Suc i) (yielded @ [res])))"

definition launch ::
  "'s step \<Rightarrow> 's \<Rightarrow> int option \<Rightarrow> (error + results list) option"
where
  "launch step s steps = launch_loop step s steps 0 []"

text \<open>\<open>results.update(res)\<close> on the ordered dictionary, and the whole accumulation of
  \<open>Manager.run\<close>.\<close>

definition dict_update :: "results \<Rightarrow> results \<Rightarrow> results" where
  "dict_update results res = foldl (\<lambda>d (k, v). set_item k v d) results res"

definition accumulate :: "results list \<Rightarrow> results" where
  "accumulate yielded = foldl dict_update [] yielded"

definition run ::
  "manager \<Rightarrow> 's step \<Rightarrow> 's \<Rightarrow> corpus \<Rightarrow> int option \<Rightarrow> (error + dataframe) option"
where
  "run self step s corpus steps =
     (case launch step s steps of
        None \<Rightarrow> None
      | Some (Inl e) \<Rightarrow> Some (Inl e)
      | Some (Inr yielded) \<Rightarrow>
          Some (examinator self (corpus.index corpus) (accumulate yielded)))"

text \<open>The optimizer in state \<open>s\<close> returns the mappings \<open>rs\<close> on its next steps and is
  then in state \<open>s'\<close>.\<close>

fun yields :: "'s step \<Rightarrow> 's \<Rightarrow> results list \<Rightarrow> 's \<Rightarrow> bool" where
  "yields step s [] s' \<longleftrightarrow> s' = s"
| "yields step s (r # rs) s' \<longleftrightarrow>
     (case step s of Inl e \<Rightarrow> False | Inr (r', s1) \<Rightarrow> r' = r \<and> yields step s1 rs s')"

text \<open>A stub optimizer: its state is the list of the mappings it has still to return.\<close>

fun stub_step :: "results list step" where
  "stub_step [] = Inl StopIteration"
| "stub_step (r # rs) = Inr (r, rs)"

section \<open>The Faiss index\<close>

text \<open>
  A two-dimensional \<open>NDArray\<close> of floats, read as reals: its rows, and \<open>shape[1]\<close>, the
  width, which an array has also when it has no row. An \<open>N\<close> by \<open>D\<close> matrix has \<open>N\<close> rows
  of length \<open>D\<close> each.
\<close>

record ndarray =
  shape1 :: nat
  rows :: "real list list"

definition matrix :: "nat \<Rightarrow> nat \<Rightarrow> ndarray \<Rightarrow> bool" where
  "matrix n d e \<longleftrightarrow> length (rows e) = n \<and> shape1 e = d \<and> list_all (\<lambda>r. length r = d) (rows e)"

text \<open>
  Modelled from the spec: the enumeration \<open>Distance\<close> of \<open>bocoel.corpora.indices.interfaces\<close>,
  whose file is not among the sources; its two members are the ones that
  \<open>FaissIndex._faiss_metric\<close> matches on. \<open>Distance.lookup\<close> resolves a name or a member
  and fails with \<open>ValueError\<close> on an unknown name; the names are a parameter.
\<close>

datatype Distance = L2 | INNER_PRODUCT

datatype distance_arg = Name string | Member Distance

definition Distance_lookup :: "(string \<Rightarrow> Distance option) \<Rightarrow> distance_arg \<Rightarrow> error + Distance" where
  "Distance_lookup names d =
     (case d of
        Member m \<Rightarrow> Inr m
      | Name s \<Rightarrow> (case names s of Some m \<Rightarrow> Inr m | None \<Rightarrow> Inl ValueError))"

text \<open>
  Modelled from the spec: \<open>Boundary\<close> of \<open>bocoel.corpora.indices.interfaces\<close>, whose file
  is not among the sources: one pair (min, max) for each dimension, \<open>dims\<close> their number.
\<close>

record Boundary =
  bounds :: "(real \<times> real) list"

definition Boundary_dims :: "Boundary \<Rightarrow> nat" where
  "Boundary_dims b = length (bounds b)"

text \<open>
  Modelled from the spec: \<open>utils.boundaries\<close> and \<open>utils.normalize\<close> of
  \<open>bocoel.corpora.indices.utils\<close>, whose file is not among the sources. The boundary has
  the extrema of each column of the matrix; normalizing divides each row by its L2
  norm and leaves a row of norm zero as it is.
\<close>

definition column_of :: "ndarray \<Rightarrow> nat \<Rightarrow> real list" where
  "column_of e j = map (\<lambda>r. r ! j) (rows e)"

definition boundaries :: "ndarray \<Rightarrow> Boundary" where
  "boundaries e =
     \<lparr>bounds = map (\<lambda>j. (Min (set (column_of e j)), Max (set (column_of e j)))) [0..<shape1 e]\<rparr>"

definition l2_norm :: "real list \<Rightarrow> real" where
  "l2_norm r = sqrt (sum_list (map (\<lambda>x. x * x) r))"

definition normalize :: "ndarray \<Rightarrow> ndarray" where
  "normalize e =
     e\<lparr>rows := map (\<lambda>r. if l2_norm r = 0 then r else map (\<lambda>x. x / l2_norm r) r) (rows e)\<rparr>"

text \<open>
  The faiss library is a parameter: \<open>faiss d s m e cuda\<close> is the index that
  \<open>index_factory(d, s, m)\<close> gives once trained on \<open>e\<close>, filled with \<open>e\<close> and, when \<open>cuda\<close>
  is set, moved to the GPUs, or the error that one of these calls raises.
\<close>

datatype metric_type = METRIC_L2 | METRIC_INNER_PRODUCT

type_synonym 'h faiss = "nat \<Rightarrow> string \<Rightarrow> metric_type \<Rightarrow> ndarray \<Rightarrow> bool \<Rightarrow> error + 'h"

fun faiss_metric :: "Distance \<Rightarrow> metric_type" where
  "faiss_metric L2 = METRIC_L2"
| "faiss_metric INNER_PRODUCT = METRIC_INNER_PRODUCT"

text \<open>
  A \<open>FaissIndex\<close>: the fields that \<open>__init__\<close> sets. No method of the class assigns to
  a field after \<open>__init__\<close> (\<open>_init_index\<close> is called by \<open>__init__\<close> alone), so an index
  is a value.
\<close>

record 'h FaissIndex =
  embeddings :: ndarray
  batch_size :: int
  distance :: Distance
  boundary :: Boundary
  index_string :: string
  faiss_index :: 'h

definition init_index :: "'h faiss \<Rightarrow> ndarray \<Rightarrow> Distance \<Rightarrow> string \<Rightarrow> bool \<Rightarrow> error + 'h" where
  "init_index faiss e d s cuda = faiss (shape1 e) s (faiss_metric d) e cuda"

text \<open>\<open>FaissIndex.__init__\<close>, with its assertion, and the properties \<open>dims\<close> and \<open>data\<close>.\<close>

definition FaissIndex_init ::
  "(string \<Rightarrow> Distance option) \<Rightarrow> 'h faiss \<Rightarrow> ndarray \<Rightarrow> distance_arg \<Rightarrow> bool \<Rightarrow> string \<Rightarrow>
     bool \<Rightarrow> int \<Rightarrow> error + 'h FaissIndex"
where
  "FaissIndex_init names faiss e dist_arg normalized s cuda batch =
     (let e' = (if normalized then normalize e else e) in
      case Distance_lookup names dist_arg of
        Inl err \<Rightarrow> Inl err
      | Inr d \<Rightarrow>
          let b = boundaries e' in
          if Boundary_dims b \<noteq> shape1 e' then Inl AssertionError
          else
            (case init_index faiss e' d s cuda of
               Inl err \<Rightarrow> Inl err
             | Inr h \<Rightarrow>
                 Inr \<lparr>embeddings = e', batch_size = batch, distance = d, boundary = b,
                      index_string = s, faiss_index = h\<rparr>))"

definition FaissIndex_dims :: "'h FaissIndex \<Rightarrow> nat" where
  "FaissIndex_dims self = shape1 (embeddings self)"

definition FaissIndex_data :: "'h FaissIndex \<Rightarrow> ndarray" where
  "FaissIndex_data self = embeddings self"

section \<open>Reference values\<close>

text \<open>The table \<open>t\<close> with the text columns \<open>cs\<close> set one after the other, each on all of
  its rows: what \<open>Manager.with_identifier_cols\<close> is to return as the augmented table.\<close>

definition with_columns :: "dataframe \<Rightarrow> (string \<times> string) list \<Rightarrow> dataframe" where
  "with_columns t cs =
     foldl (\<lambda>t (c, d). t\<lparr>data := set_item c (replicate (nrows t) (Text d)) (data t)\<rparr>) t cs"

text \<open>A table of scores, column labels, a corpus, a state with an empty output directory,
  and a directory with two result files and a file of another kind.\<close>

definition example_table :: dataframe where
  "example_table = \<lparr>nrows = 2, data = [(''score'', [Number 1, Number 2])]\<rparr>"

definition example_columns :: column_names where
  "example_columns =
     \<lparr>OPTIMIZER = ''optimizer'', MODEL = ''model'', ADAPTOR = ''adaptor'', INDEX = ''index'',
      STORAGE = ''storage'', EMBEDDER = ''embedder'', TIME = ''time'', MD5 = ''md5''\<rparr>"

definition example_corpus :: corpus where
  "example_corpus = \<lparr>corpus.index = \<lparr>stateful_index.index = ''i''\<rparr>, storage = ''s''\<rparr>"

definition example_world :: world where
  "example_world =
     \<lparr>frames = \<lambda>r. example_table, fresh = 1, files = [([''out''], Directory)],
      now = \<lparr>year = 2024, month = 11, day = 12, hour = 13, minute = 14, second = 15\<rparr>\<rparr>"

definition example_manager :: manager where
  "example_manager =
     \<lparr>path = Some [''out''], start = ''2024-11-12-13-14-15'', examinator = \<lambda>ix res. Inl Fatal\<rparr>"

definition example_fs :: fs where
  "example_fs =
     [([''out''], Directory),
      ([''out'', ''a.csv''],
         CsvFile \<lparr>nrows = 2,
           data = [(''score'', [Number 1, Number 4]), (''md5'', [Text ''a'', Text ''a''])]\<rparr>),
      ([''out'', ''notes.txt''], OtherFile),
      ([''out'', ''b.csv''], CsvFile \<lparr>nrows = 2, data = [(''score'', [Number 2, Number 3])]\<rparr>),
      ([''empty''], Directory)]"

section \<open>Properties of the digest\<close>

text \<open>The model reproduces the test vector of RFC 1321 for the message \<open>abc\<close>.\<close>

lemma hashlib_md5_hexdigest_abc:
  "hashlib_md5_hexdigest (str_encode ''abc'') = ''900150983cd24fb0d6963f7d28e17f72''"
  by code_simp

lemma length_concat_hex_byte: "length (concat (map hex_byte bs)) = 2 * length bs"
  by (induction bs) (simp_all add: hex_byte_def)

lemma length_md5_digest: "length (md5_digest msg) = 16"
  by (simp add: md5_digest_def split: prod.splits)

lemma length_hashlib_md5_hexdigest: "length (hashlib_md5_hexdigest msg) = 32"
  by (simp add: hashlib_md5_hexdigest_def length_concat_hex_byte length_md5_digest)

text \<open>The digests of the reference descriptors, and of the six changes of one argument;
  they are the values that \<open>hashlib.md5\<close> gives.\<close>

lemma md5_example_o:
  "md5 ''o'' example_corpus ''m'' ''a'' ''e'' ''2024-11-12-13-14-15'' =
     ''4fa8284bcb39dc4db6ac8484e30d5724''"
  by code_simp

lemma md5_example_o2:
  "md5 ''o2'' example_corpus ''m'' ''a'' ''e'' ''2024-11-12-13-14-15'' =
     ''d85af99e84e75762cffe205b81ccfbb3''"
  by code_simp

lemma md5_example_i2:
  "md5 ''o'' \<lparr>corpus.index = \<lparr>stateful_index.index = ''i2''\<rparr>, storage = ''s''\<rparr>
     ''m'' ''a'' ''e'' ''2024-11-12-13-14-15'' = ''a4e7aff2811e30e735a31aac8422feff''"
  by code_simp

lemma md5_example_m2:
  "md5 ''o'' example_corpus ''m2'' ''a'' ''e'' ''2024-11-12-13-14-15'' =
     ''77f41c7ae29b681b5bb2a5e31e9017b6''"
  by code_simp

lemma md5_example_a2:
  "md5 ''o'' example_corpus ''m'' ''a2'' ''e'' ''2024-11-12-13-14-15'' =
     ''d5e2257d5726cede933304d0d727e93f''"
  by code_simp

lemma md5_example_e2:
  "md5 ''o'' example_corpus ''m'' ''a'' ''e2'' ''2024-11-12-13-14-15'' =
     ''a35b70b4e2fa506bfd6e1262429a2147''"
  by code_simp

lemma md5_example_t2:
  "md5 ''o'' example_corpus ''m'' ''a'' ''e'' ''2024-11-12-13-14-16'' =
     ''b074494f4515c6c73c369c8a17d823db''"
  by code_simp

subsection \<open>Joining with a separator\<close>

lemma str_join_Cons: "str_join sep (x # xs) = (if xs = [] then x else x @ sep @ str_join sep xs)"
  by (cases xs) simp_all

lemma str_join_update:
  "i < length ds \<Longrightarrow> str_join sep (ds[i := d]) = str_join sep ds \<longleftrightarrow> d = ds ! i"
proof (induction ds arbitrary: i)
  case Nil
  then show ?case by simp
next
  case (Cons x xs)
  show ?case
  proof (cases i)
    case 0
    then show ?thesis by (simp add: str_join_Cons)
  next
    case (Suc j)
    with Cons.prems have "j < length xs" by simp
    then have "str_join sep (xs[j := d]) = str_join sep xs \<longleftrightarrow> d = xs ! j"
      by (rule Cons.IH)
    moreover from \<open>j < length xs\<close> have "xs \<noteq> []" by auto
    ultimately show ?thesis using Suc by (simp add: str_join_Cons)
  qed
qed

subsection \<open>The text that is hashed\<close>

lemma md5_eq_iff:
  "md5 optimizer' corpus' model' adaptor' embedder' time' =
     md5 optimizer corpus model adaptor embedder time \<longleftrightarrow>
   str_join '' '' (md5_data optimizer' corpus' model' adaptor' embedder' time') =
     str_join '' '' (md5_data optimizer corpus model adaptor embedder time) \<or>
   md5_collision (str_join '' '' (md5_data optimizer' corpus' model' adaptor' embedder' time'))
     (str_join '' '' (md5_data optimizer corpus model adaptor embedder time))"
  by (auto simp: md5_def md5_collision_def)

lemma length_md5_data: "length (md5_data optimizer corpus model adaptor embedder time) = 7"
  by (simp add: md5_data_def)

lemma str_join_md5_data_position:
  assumes "i < 7"
    and "md5_data optimizer' corpus' model' adaptor' embedder' time' =
      (md5_data optimizer corpus model adaptor embedder time)[i := d]"
  shows "str_join '' '' (md5_data optimizer' corpus' model' adaptor' embedder' time') =
      str_join '' '' (md5_data optimizer corpus model adaptor embedder time) \<longleftrightarrow>
    d = md5_data optimizer corpus model adaptor embedder time ! i"
proof -
  from assms(1) have "i < length (md5_data optimizer corpus model adaptor embedder time)"
    by (simp add: length_md5_data)
  then show ?thesis
    unfolding assms(2) by (rule str_join_update)
qed

lemma append_sep_cancel:
  "x' @ sep @ y' @ r = x @ sep @ y @ r \<longleftrightarrow> x' @ sep @ y' = x @ sep @ (y :: 'a list)"
proof -
  have "(x' @ sep @ y') @ r = (x @ sep @ y) @ r \<longleftrightarrow> x' @ sep @ y' = x @ sep @ y"
    by (rule append_same_eq)
  then show ?thesis
    by simp
qed

lemma str_join_md5_data_corpus:
  "str_join '' '' (md5_data optimizer corpus' model adaptor embedder time) =
     str_join '' '' (md5_data optimizer corpus model adaptor embedder time) \<longleftrightarrow>
   stateful_index.index (corpus.index corpus') @ '' '' @ storage corpus' =
     stateful_index.index (corpus.index corpus) @ '' '' @ storage corpus"
proof -
  let ?r = "'' '' @ model @ '' '' @ adaptor @ '' '' @ time"
  have "stateful_index.index (corpus.index corpus') @ '' '' @ storage corpus' @ ?r =
      stateful_index.index (corpus.index corpus) @ '' '' @ storage corpus @ ?r \<longleftrightarrow>
    stateful_index.index (corpus.index corpus') @ '' '' @ storage corpus' =
      stateful_index.index (corpus.index corpus) @ '' '' @ storage corpus"
    by (rule append_sep_cancel)
  then show ?thesis
    by (simp add: md5_data_def)
qed


section \<open>Run identity\<close>

text \<open>
  C1, as stated, fails: \<open>Manager.md5\<close> joins the descriptors with single spaces, and the
  corpus contributes two neighbouring items, the descriptor of its index and the
  descriptor of its storage. A corpus with index \<open>a b\<close> and storage \<open>c\<close> and a
  corpus with index \<open>a\<close> and storage \<open>b c\<close> are different arguments at the corpus
  position, the other five arguments being equal, and the text that is hashed is the
  same, so the digest is the same.
\<close>

theorem md5_corpus_change_same_digest:
  "\<lparr>corpus.index = \<lparr>stateful_index.index = ''a b''\<rparr>, storage = ''c''\<rparr> \<noteq>
     \<lparr>corpus.index = \<lparr>stateful_index.index = ''a''\<rparr>, storage = ''b c''\<rparr> \<and>
   md5 ''o'' \<lparr>corpus.index = \<lparr>stateful_index.index = ''a b''\<rparr>, storage = ''c''\<rparr>
     ''m'' ''a'' ''e'' ''t'' =
   md5 ''o'' \<lparr>corpus.index = \<lparr>stateful_index.index = ''a''\<rparr>, storage = ''b c''\<rparr>
     ''m'' ''a'' ''e'' ''t''"
  by (simp add: md5_def md5_data_def)

text \<open>
  C1, amended: when one of the six arguments of \<open>Manager.md5\<close> changes and the other
  five stay, the digest stays the same exactly when the text that the argument
  contributes to the hashed text is unchanged or MD5 collides on the two hashed texts.
  The optimizer, the model, the adaptor, the embedder and the time contribute their own
  text, so every change of one of them changes the text that is hashed. The corpus
  contributes the text of its index, a space and the text of its storage, so a change
  of the corpus changes the text that is hashed exactly when it changes this text.
  Equal arguments give equal digests.
\<close>

theorem md5_changes_with_one_argument:
  "(md5 optimizer' corpus model adaptor embedder time =
      md5 optimizer corpus model adaptor embedder time \<longleftrightarrow>
    optimizer' = optimizer \<or>
    md5_collision (str_join '' '' (md5_data optimizer' corpus model adaptor embedder time))
      (str_join '' '' (md5_data optimizer corpus model adaptor embedder time))) \<and>
   (md5 optimizer corpus' model adaptor embedder time =
      md5 optimizer corpus model adaptor embedder time \<longleftrightarrow>
    stateful_index.index (corpus.index corpus') @ '' '' @ storage corpus' =
      stateful_index.index (corpus.index corpus) @ '' '' @ storage corpus \<or>
    md5_collision (str_join '' '' (md5_data optimizer corpus' model adaptor embedder time))
      (str_join '' '' (md5_data optimizer corpus model adaptor embedder time))) \<and>
   (md5 optimizer corpus model' adaptor embedder time =
      md5 optimizer corpus model adaptor embedder time \<longleftrightarrow>
    model' = model \<or>
    md5_collision (str_join '' '' (md5_data optimizer corpus model' adaptor embedder time))
      (str_join '' '' (md5_data optimizer corpus model adaptor embedder time))) \<and>
   (md5 optimizer corpus model adaptor' embedder time =
      md5 optimizer corpus model adaptor embedder time \<longleftrightarrow>
    adaptor' = adaptor \<or>
    md5_collision (str_join '' '' (md5_data optimizer corpus model adaptor' embedder time))
      (str_join '' '' (md5_data optimizer corpus model adaptor embedder time))) \<and>
   (md5 optimizer corpus model adaptor embedder' time =
      md5 optimizer corpus model adaptor embedder time \<longleftrightarrow>
    embedder' = embedder \<or>
    md5_collision (str_join '' '' (md5_data optimizer corpus model adaptor embedder' time))
      (str_join '' '' (md5_data optimizer corpus model adaptor embedder time))) \<and>
   (md5 optimizer corpus model adaptor embedder time' =
      md5 optimizer corpus model adaptor embedder time \<longleftrightarrow>
    time' = time \<or>
    md5_collision (str_join '' '' (md5_data optimizer corpus model adaptor embedder time'))
      (str_join '' '' (md5_data optimizer corpus model adaptor embedder time)))"
proof (intro conjI)
  have "str_join '' '' (md5_data optimizer' corpus model adaptor embedder time) =
      str_join '' '' (md5_data optimizer corpus model adaptor embedder time) \<longleftrightarrow>
    optimizer' = md5_data optimizer corpus model adaptor embedder time ! 0"
    by (rule str_join_md5_data_position) (simp_all add: md5_data_def)
  then show "md5 optimizer' corpus model adaptor embedder time =
      md5 optimizer corpus model adaptor embedder time \<longleftrightarrow>
    optimizer' = optimizer \<or>
    md5_collision (str_join '' '' (md5_data optimizer' corpus model adaptor embedder time))
      (str_join '' '' (md5_data optimizer corpus model adaptor embedder time))"
    unfolding md5_eq_iff by (simp add: md5_data_def)
next
  show "md5 optimizer corpus' model adaptor embedder time =
      md5 optimizer corpus model adaptor embedder time \<longleftrightarrow>
    stateful_index.index (corpus.index corpus') @ '' '' @ storage corpus' =
      stateful_index.index (corpus.index corpus) @ '' '' @ storage corpus \<or>
    md5_collision (str_join '' '' (md5_data optimizer corpus' model adaptor embedder time))
      (str_join '' '' (md5_data optimizer corpus model adaptor embedder time))"
    unfolding md5_eq_iff str_join_md5_data_corpus ..
next
  have "str_join '' '' (md5_data optimizer corpus model' adaptor embedder time) =
      str_join '' '' (md5_data optimizer corpus model adaptor embedder time) \<longleftrightarrow>
    model' = md5_data optimizer corpus model adaptor embedder time ! 4"
    by (rule str_join_md5_data_position) (simp_all add: md5_data_def)
  then show "md5 optimizer corpus model' adaptor embedder time =
      md5 optimizer corpus model adaptor embedder time \<longleftrightarrow>
    model' = model \<or>
    md5_collision (str_join '' '' (md5_data optimizer corpus model' adaptor embedder time))
      (str_join '' '' (md5_data optimizer corpus model adaptor embedder time))"
    unfolding md5_eq_iff by (simp add: md5_data_def)
next
  have "str_join '' '' (md5_data optimizer corpus model adaptor' embedder time) =
      str_join '' '' (md5_data optimizer corpus model adaptor embedder time) \<longleftrightarrow>
    adaptor' = md5_data optimizer corpus model adaptor embedder time ! 5"
    by (rule str_join_md5_data_position) (simp_all add: md5_data_def)
  then show "md5 optimizer corpus model adaptor' embedder time =
      md5 optimizer corpus model adaptor embedder time \<longleftrightarrow>
    adaptor' = adaptor \<or>
    md5_collision (str_join '' '' (md5_data optimizer corpus model adaptor' embedder time))
      (str_join '' '' (md5_data optimizer corpus model adaptor embedder time))"
    unfolding md5_eq_iff by (simp add: md5_data_def)
next
  have "str_join '' '' (md5_data optimizer corpus model adaptor embedder' time) =
      str_join '' '' (md5_data optimizer corpus model adaptor embedder time) \<longleftrightarrow>
    embedder' = md5_data optimizer corpus model adaptor embedder time ! 1"
    by (rule str_join_md5_data_position) (simp_all add: md5_data_def)
  then show "md5 optimizer corpus model adaptor embedder' time =
      md5 optimizer corpus model adaptor embedder time \<longleftrightarrow>
    embedder' = embedder \<or>
    md5_collision (str_join '' '' (md5_data optimizer corpus model adaptor embedder' time))
      (str_join '' '' (md5_data optimizer corpus model adaptor embedder time))"
    unfolding md5_eq_iff by (simp add: md5_data_def)
next
  have "str_join '' '' (md5_data optimizer corpus model adaptor embedder time') =
      str_join '' '' (md5_data optimizer corpus model adaptor embedder time) \<longleftrightarrow>
    time' = md5_data optimizer corpus model adaptor embedder time ! 6"
    by (rule str_join_md5_data_position) (simp_all add: md5_data_def)
  then show "md5 optimizer corpus model adaptor embedder time' =
      md5 optimizer corpus model adaptor embedder time \<longleftrightarrow>
    time' = time \<or>
    md5_collision (str_join '' '' (md5_data optimizer corpus model adaptor embedder time'))
      (str_join '' '' (md5_data optimizer corpus model adaptor embedder time))"
    unfolding md5_eq_iff by (simp add: md5_data_def)
qed

theorem md5_changes_with_one_argument_witness:
  "md5 ''o2'' example_corpus ''m'' ''a'' ''e'' ''2024-11-12-13-14-15'' \<noteq>
     md5 ''o'' example_corpus ''m'' ''a'' ''e'' ''2024-11-12-13-14-15'' \<and>
   md5 ''o'' \<lparr>corpus.index = \<lparr>stateful_index.index = ''i2''\<rparr>, storage = ''s''\<rparr>
       ''m'' ''a'' ''e'' ''2024-11-12-13-14-15'' \<noteq>
     md5 ''o'' example_corpus ''m'' ''a'' ''e'' ''2024-11-12-13-14-15'' \<and>
   md5 ''o'' example_corpus ''m2'' ''a'' ''e'' ''2024-11-12-13-14-15'' \<noteq>
     md5 ''o'' example_corpus ''m'' ''a'' ''e'' ''2024-11-12-13-14-15'' \<and>
   md5 ''o'' example_corpus ''m'' ''a2'' ''e'' ''2024-11-12-13-14-15'' \<noteq>
     md5 ''o'' example_corpus ''m'' ''a'' ''e'' ''2024-11-12-13-14-15'' \<and>
   md5 ''o'' example_corpus ''m'' ''a'' ''e2'' ''2024-11-12-13-14-15'' \<noteq>
     md5 ''o'' example_corpus ''m'' ''a'' ''e'' ''2024-11-12-13-14-15'' \<and>
   md5 ''o'' example_corpus ''m'' ''a'' ''e'' ''2024-11-12-13-14-16'' \<noteq>
     md5 ''o'' example_corpus ''m'' ''a'' ''e'' ''2024-11-12-13-14-15'' \<and>
   \<not> md5_collision ''o2 e i s m a 2024-11-12-13-14-15'' ''o e i s m a 2024-11-12-13-14-15'' \<and>
   \<not> md5_collision ''o e i2 s m a 2024-11-12-13-14-15'' ''o e i s m a 2024-11-12-13-14-15'' \<and>
   \<not> md5_collision ''o e i s m2 a 2024-11-12-13-14-15'' ''o e i s m a 2024-11-12-13-14-15'' \<and>
   \<not> md5_collision ''o e i s m a2 2024-11-12-13-14-15'' ''o e i s m a 2024-11-12-13-14-15'' \<and>
   \<not> md5_collision ''o e2 i s m a 2024-11-12-13-14-15'' ''o e i s m a 2024-11-12-13-14-15'' \<and>
   \<not> md5_collision ''o e i s m a 2024-11-12-13-14-16'' ''o e i s m a 2024-11-12-13-14-15''"
proof -
  let ?c2 = "\<lparr>corpus.index = \<lparr>stateful_index.index = ''i2''\<rparr>, storage = ''s''\<rparr>"
  let ?t = "''2024-11-12-13-14-15''"
  let ?t2 = "''2024-11-12-13-14-16''"
  note T = md5_changes_with_one_argument
    [where optimizer = "''o''" and corpus = example_corpus and model = "''m''"
       and adaptor = "''a''" and embedder = "''e''" and time = ?t
       and optimizer' = "''o2''" and corpus' = ?c2 and model' = "''m2''"
       and adaptor' = "''a2''" and embedder' = "''e2''" and time' = ?t2]
  have o: "md5 ''o2'' example_corpus ''m'' ''a'' ''e'' ?t \<noteq>
      md5 ''o'' example_corpus ''m'' ''a'' ''e'' ?t"
    by (simp add: md5_example_o md5_example_o2)
  have c: "md5 ''o'' ?c2 ''m'' ''a'' ''e'' ?t \<noteq> md5 ''o'' example_corpus ''m'' ''a'' ''e'' ?t"
    by (simp add: md5_example_o md5_example_i2)
  have m: "md5 ''o'' example_corpus ''m2'' ''a'' ''e'' ?t \<noteq>
      md5 ''o'' example_corpus ''m'' ''a'' ''e'' ?t"
    by (simp add: md5_example_o md5_example_m2)
  have a: "md5 ''o'' example_corpus ''m'' ''a2'' ''e'' ?t \<noteq>
      md5 ''o'' example_corpus ''m'' ''a'' ''e'' ?t"
    by (simp add: md5_example_o md5_example_a2)
  have e: "md5 ''o'' example_corpus ''m'' ''a'' ''e2'' ?t \<noteq>
      md5 ''o'' example_corpus ''m'' ''a'' ''e'' ?t"
    by (simp add: md5_example_o md5_example_e2)
  have t: "md5 ''o'' example_corpus ''m'' ''a'' ''e'' ?t2 \<noteq>
      md5 ''o'' example_corpus ''m'' ''a'' ''e'' ?t"
    by (simp add: md5_example_o md5_example_t2)
  have texts:
    "str_join '' '' (md5_data ''o'' example_corpus ''m'' ''a'' ''e'' ?t) =
       ''o e i s m a 2024-11-12-13-14-15''"
    "str_join '' '' (md5_data ''o2'' example_corpus ''m'' ''a'' ''e'' ?t) =
       ''o2 e i s m a 2024-11-12-13-14-15''"
    "str_join '' '' (md5_data ''o'' ?c2 ''m'' ''a'' ''e'' ?t) =
       ''o e i2 s m a 2024-11-12-13-14-15''"
    "str_join '' '' (md5_data ''o'' example_corpus ''m2'' ''a'' ''e'' ?t) =
       ''o e i s m2 a 2024-11-12-13-14-15''"
    "str_join '' '' (md5_data ''o'' example_corpus ''m'' ''a2'' ''e'' ?t) =
       ''o e i s m a2 2024-11-12-13-14-15''"
    "str_join '' '' (md5_data ''o'' example_corpus ''m'' ''a'' ''e2'' ?t) =
       ''o e2 i s m a 2024-11-12-13-14-15''"
    "str_join '' '' (md5_data ''o'' example_corpus ''m'' ''a'' ''e'' ?t2) =
       ''o e i s m a 2024-11-12-13-14-16''"
    by (simp_all add: md5_data_def example_corpus_def)
  from T o have "\<not> md5_collision ''o2 e i s m a 2024-11-12-13-14-15''
      ''o e i s m a 2024-11-12-13-14-15''"
    unfolding texts by blast
  moreover from T c have "\<not> md5_collision ''o e i2 s m a 2024-11-12-13-14-15''
      ''o e i s m a 2024-11-12-13-14-15''"
    unfolding texts by blast
  moreover from T m have "\<not> md5_collision ''o e i s m2 a 2024-11-12-13-14-15''
      ''o e i s m a 2024-11-12-13-14-15''"
    unfolding texts by blast
  moreover from T a have "\<not> md5_collision ''o e i s m a2 2024-11-12-13-14-15''
      ''o e i s m a 2024-11-12-13-14-15''"
    unfolding texts by blast
  moreover from T e have "\<not> md5_collision ''o e2 i s m a 2024-11-12-13-14-15''
      ''o e i s m a 2024-11-12-13-14-15''"
    unfolding texts by blast
  moreover from T t have "\<not> md5_collision ''o e i s m a 2024-11-12-13-14-16''
      ''o e i s m a 2024-11-12-13-14-15''"
    unfolding texts by blast
  ultimately show ?thesis
    using o c m a e t by (intro conjI)
qed

section \<open>The run loop: termination and accumulation\<close>

lemma launch_loop_yields:
  assumes "yields step s rs s'"
    and "step s' = Inl StopIteration \<or> (\<exists>n. steps = Some n \<and> n \<le> int i + int (length rs))"
  shows "launch_loop step s steps i acc =
    Some (Inr (acc @ (case steps of None \<Rightarrow> rs | Some n \<Rightarrow> take (nat (n - int i)) rs)))"
  using assms
proof (induction rs arbitrary: s i acc)
  case Nil
  then show ?case
    by (subst launch_loop.simps) (auto split: option.splits)
next
  case (Cons r rs)
  from Cons.prems(1) obtain s1 where st: "step s = Inr (r, s1)" and y: "yields step s1 rs s'"
    by (auto split: sum.splits)
  show ?case
  proof (cases "case steps of None \<Rightarrow> False | Some n \<Rightarrow> n \<le> int i")
    case True
    then show ?thesis
      by (subst launch_loop.simps) (auto split: option.splits)
  next
    case False
    from Cons.prems(2)
    have "step s' = Inl StopIteration \<or> (\<exists>n. steps = Some n \<and> n \<le> int (Suc i) + int (length rs))"
      by auto
    with y have "launch_loop step s1 steps (Suc i) (acc @ [r]) =
      Some (Inr ((acc @ [r]) @
        (case steps of None \<Rightarrow> rs | Some n \<Rightarrow> take (nat (n - int (Suc i))) rs)))"
      by (rule Cons.IH)
    moreover have "(case steps of None \<Rightarrow> r # rs | Some n \<Rightarrow> take (nat (n - int i)) (r # rs)) =
      r # (case steps of None \<Rightarrow> rs | Some n \<Rightarrow> take (nat (n - int (Suc i))) rs)"
    proof (cases steps)
      case None
      then show ?thesis by simp
    next
      case (Some n)
      with False have "nat (n - int i) = Suc (nat (n - int (Suc i)))"
        by simp
      with Some show ?thesis by simp
    qed
    ultimately show ?thesis
      using False st by (subst launch_loop.simps) simp
  qed
qed

lemma map_of_set_item: "map_of (set_item k v d) = (map_of d)(k \<mapsto> v)"
  by (induction d) (auto simp: fun_eq_iff)

lemma keys_set_item: "set (map fst (set_item k v d)) = insert k (set (map fst d))"
proof (induction d)
  case Nil
  then show ?case by simp
next
  case (Cons x d)
  obtain k' v' where x: "x = (k', v')" by (cases x)
  show ?case
  proof (cases "k' = k")
    case True
    with x show ?thesis by simp
  next
    case False
    with x Cons.IH show ?thesis by (simp add: insert_commute)
  qed
qed

lemma distinct_set_item: "distinct (map fst d) \<Longrightarrow> distinct (map fst (set_item k v d))"
proof (induction d)
  case Nil
  then show ?case by simp
next
  case (Cons x d)
  obtain k' v' where x: "x = (k', v')" by (cases x)
  show ?case
  proof (cases "k' = k")
    case True
    with Cons.prems x show ?thesis by simp
  next
    case False
    from Cons.prems x have "k' \<notin> set (map fst d)" and "distinct (map fst d)" by simp_all
    with Cons.IH False x show ?thesis
      using keys_set_item [of k v d] by simp
  qed
qed

lemma map_of_dict_update: "map_of (dict_update d res) = map_of d ++ map_of (rev res)"
  unfolding dict_update_def
proof (induction res arbitrary: d)
  case Nil
  then show ?case by simp
next
  case (Cons x res)
  obtain k v where x: "x = (k, v)" by (cases x)
  have "map_of (foldl (\<lambda>d (k, v). set_item k v d) (set_item k v d) res) =
    map_of (set_item k v d) ++ map_of (rev res)"
    by (rule Cons.IH)
  then show ?case
    by (simp add: x map_of_set_item fun_eq_iff map_add_def split: option.splits)
qed

lemma distinct_dict_update:
  "distinct (map fst d) \<Longrightarrow> distinct (map fst (dict_update d res))"
  unfolding dict_update_def
  by (induction res arbitrary: d) (auto simp: distinct_set_item)

lemma distinct_accumulate_aux:
  "distinct (map fst d) \<Longrightarrow> distinct (map fst (foldl dict_update d rs))"
  by (induction rs arbitrary: d) (auto simp: distinct_dict_update)

lemma dict_update_absent:
  "k \<notin> fst ` set res \<Longrightarrow> map_of (dict_update d res) k = map_of d k"
proof -
  assume "k \<notin> fst ` set res"
  then have "map_of (rev res) k = None"
    by (simp add: map_of_eq_None_iff)
  then show ?thesis
    by (simp add: map_of_dict_update map_add_def)
qed

lemma dict_update_present:
  "(k, v) \<in> set res \<Longrightarrow> distinct (map fst res) \<Longrightarrow> map_of (dict_update d res) k = Some v"
proof -
  assume "(k, v) \<in> set res" and "distinct (map fst res)"
  then have "distinct (map fst (rev res))" and "(k, v) \<in> set (rev res)"
    by (simp_all add: rev_map [symmetric])
  then have "map_of (rev res) k = Some v"
    by (rule map_of_is_SomeI)
  then show ?thesis
    by (simp add: map_of_dict_update map_add_def)
qed

lemma foldl_dict_update_absent:
  "\<forall>r \<in> set rs. k \<notin> fst ` set r \<Longrightarrow> map_of (foldl dict_update d rs) k = map_of d k"
  by (induction rs arbitrary: d) (simp_all add: dict_update_absent)

text \<open>
  C2: \<open>Manager.run\<close> stops at the earlier of exhaustion and the end of the budget, and
  exhaustion is no error. Let the optimizer return the mappings \<open>rs\<close> on its next
  steps, and let it then raise \<open>StopIteration\<close>, or let the budget be at most the length
  of \<open>rs\<close>. Then the generator returns, having yielded all of \<open>rs\<close> when there is no
  budget, and the first \<open>steps\<close> of them otherwise (all of them when the budget is
  larger), and \<open>run\<close> returns what the examinator makes of their accumulation.
\<close>

theorem run_stops_at_exhaustion_or_budget:
  assumes "yields step s rs s'"
    and "step s' = Inl StopIteration \<or> (\<exists>n. steps = Some n \<and> n \<le> int (length rs))"
  shows "launch step s steps =
      Some (Inr (case steps of None \<Rightarrow> rs | Some n \<Rightarrow> take (nat n) rs)) \<and>
    run self step s corpus steps =
      Some (examinator self (corpus.index corpus)
        (accumulate (case steps of None \<Rightarrow> rs | Some n \<Rightarrow> take (nat n) rs)))"
proof -
  from assms(2)
  have "step s' = Inl StopIteration \<or> (\<exists>n. steps = Some n \<and> n \<le> int 0 + int (length rs))"
    by simp
  with assms(1) have "launch_loop step s steps 0 [] =
    Some (Inr ([] @ (case steps of None \<Rightarrow> rs | Some n \<Rightarrow> take (nat (n - int 0)) rs)))"
    by (rule launch_loop_yields)
  then have l: "launch step s steps =
    Some (Inr (case steps of None \<Rightarrow> rs | Some n \<Rightarrow> take (nat n) rs))"
    by (cases steps) (simp_all add: launch_def)
  then show ?thesis
    by (simp add: run_def)
qed

theorem run_stops_at_exhaustion_or_budget_witness:
  "launch stub_step [[(0, 1)], [(1, 2)], [(0, 3)]] None =
     Some (Inr [[(0, 1)], [(1, 2)], [(0, 3)]]) \<and>
   launch stub_step [[(0, 1)], [(1, 2)], [(0, 3)]] (Some 5) =
     Some (Inr [[(0, 1)], [(1, 2)], [(0, 3)]]) \<and>
   launch stub_step [[(0, 1)], [(1, 2)], [(0, 3)]] (Some 2) =
     Some (Inr [[(0, 1)], [(1, 2)]]) \<and>
   run \<lparr>path = None, start = ''t'',
        examinator = \<lambda>ix res. Inr \<lparr>nrows = length res, data = [(''score'', map (Number \<circ> snd) res)]\<rparr>\<rparr>
     stub_step [[(0, 1)], [(1, 2)], [(0, 3)]]
     \<lparr>corpus.index = \<lparr>stateful_index.index = ''i''\<rparr>, storage = ''s''\<rparr> (Some 2) =
     Some (Inr \<lparr>nrows = 2, data = [(''score'', [Number 1, Number 2])]\<rparr>)"
proof -
  let ?rs = "[[(0, 1)], [(1, 2)], [(0, 3)]] :: results list"
  have y: "yields stub_step ?rs ?rs []"
    by simp
  have e: "stub_step [] = Inl StopIteration \<or> (\<exists>n. steps = Some n \<and> n \<le> int (length ?rs))"
    for steps
    by simp
  show ?thesis
    using run_stops_at_exhaustion_or_budget [OF y e, of None]
      run_stops_at_exhaustion_or_budget [OF y e, of "Some 5"]
      run_stops_at_exhaustion_or_budget [OF y e, of "Some 2"
        "\<lparr>path = None, start = ''t'',
          examinator = \<lambda>ix res. Inr \<lparr>nrows = length res, data = [(''score'', map (Number \<circ> snd) res)]\<rparr>\<rparr>"
        "\<lparr>corpus.index = \<lparr>stateful_index.index = ''i''\<rparr>, storage = ''s''\<rparr>"]
    by (simp add: accumulate_def dict_update_def)
qed

text \<open>
  C8: the accumulation of \<open>Manager.run\<close> is last-write-wins. When the row \<open>k\<close> has the
  value \<open>v\<close> in the mapping of step \<open>j\<close> and is in no mapping of a later step, the
  accumulated value of \<open>k\<close> is \<open>v\<close>; a row that is in the mapping of one step only is
  the case where no earlier step has it either. (The keys of one mapping are distinct.)
\<close>

theorem accumulate_last_write_wins:
  assumes "j < length rs" and "(k, v) \<in> set (rs ! j)" and "distinct (map fst (rs ! j))"
    and "\<forall>j'. j < j' \<and> j' < length rs \<longrightarrow> k \<notin> fst ` set (rs ! j')"
  shows "map_of (accumulate rs) k = Some v"
proof -
  from assms(1) have rs: "rs = take j rs @ rs ! j # drop (Suc j) rs"
    by (simp add: id_take_nth_drop)
  have later: "\<forall>r \<in> set (drop (Suc j) rs). k \<notin> fst ` set r"
  proof
    fix r assume "r \<in> set (drop (Suc j) rs)"
    then obtain m where "m < length (drop (Suc j) rs)" and "r = drop (Suc j) rs ! m"
      by (auto simp: in_set_conv_nth)
    then have "r = rs ! (Suc j + m)" and "Suc j + m < length rs" by auto
    with assms(4) show "k \<notin> fst ` set r" by simp
  qed
  have "accumulate rs =
    foldl dict_update (dict_update (foldl dict_update [] (take j rs)) (rs ! j)) (drop (Suc j) rs)"
    unfolding accumulate_def by (subst rs) simp
  then have "map_of (accumulate rs) k =
    map_of (dict_update (foldl dict_update [] (take j rs)) (rs ! j)) k"
    using later by (simp add: foldl_dict_update_absent)
  also have "\<dots> = Some v"
    using assms(2,3) by (rule dict_update_present)
  finally show ?thesis .
qed


theorem accumulate_last_write_wins_witness:
  "map_of (accumulate [[(0, 1), (1, 2)], [(0, 3)]]) 0 = Some 3 \<and>
   map_of (accumulate [[(0, 1), (1, 2)], [(0, 3)]]) 1 = Some 2"
proof -
  let ?rs = "[[(0, 1), (1, 2)], [(0, 3)]] :: results list"
  have "\<forall>j'. 1 < j' \<and> j' < length ?rs \<longrightarrow> 0 \<notin> fst ` set (?rs ! j')"
    by simp
  moreover have "\<forall>j'. 0 < j' \<and> j' < length ?rs \<longrightarrow> 1 \<notin> fst ` set (?rs ! j')"
    by (auto simp: less_Suc_eq)
  ultimately show ?thesis
    using accumulate_last_write_wins [of 1 ?rs 0 3] accumulate_last_write_wins [of 0 ?rs 1 2]
    by simp
qed

section \<open>Evaluating the reference values\<close>

lemma strftime_example:
  "strftime \<lparr>year = 2024, month = 11, day = 12, hour = 13, minute = 14, second = 15\<rparr> =
     ''2024-11-12-13-14-15''"
  by code_simp

lemma glob_csv_example_out:
  "glob_csv example_fs [''out''] = [[''out'', ''a.csv''], [''out'', ''b.csv'']]"
  by (simp add: glob_csv_def example_fs_def is_dir_def node_at_def entries_def endswith_def)

lemma glob_csv_example_empty: "glob_csv example_fs [''empty''] = []"
  by (simp add: glob_csv_def example_fs_def is_dir_def node_at_def entries_def endswith_def)

lemma pd_concat_example:
  "pd_concat
     [\<lparr>nrows = 2, data = [(''score'', [Number 1, Number 4]), (''md5'', [Text ''a'', Text ''a''])]\<rparr>,
      \<lparr>nrows = 2, data = [(''score'', [Number 2, Number 3])]\<rparr>] =
   \<lparr>nrows = 4,
    data = [(''score'', [Number 1, Number 4, Number 2, Number 3]),
            (''md5'', [Text ''a'', Text ''a'', NaN, NaN])]\<rparr>"
  by (simp add: pd_concat_def column_or_nan_def numeral_2_eq_2)

section \<open>Saving\<close>


lemma node_at_set_item:
  "k \<noteq> [] \<Longrightarrow> node_at (set_item k v fs) q = (if q = k then Some v else node_at fs q)"
  by (simp add: node_at_def map_of_set_item)


lemma save_with_path:
  assumes "path self = Some p"
  shows "fst (save self columns w df optimizer corpus model adaptor embedder) =
      (if is_dir (files w) p \<and>
          node_at (files w) (p @ [md5 optimizer corpus model adaptor embedder (start self) @ ''.csv''])
            \<noteq> Some Directory
       then Inr () else Inl OSError) \<and>
    files (snd (save self columns w df optimizer corpus model adaptor embedder)) =
      (if is_dir (files w) p \<and>
          node_at (files w) (p @ [md5 optimizer corpus model adaptor embedder (start self) @ ''.csv''])
            \<noteq> Some Directory
       then set_item (p @ [md5 optimizer corpus model adaptor embedder (start self) @ ''.csv''])
              (CsvFile (frames (snd (snd (with_identifier_cols self columns w df optimizer corpus
                 model adaptor embedder)))
                 (fst (snd (with_identifier_cols self columns w df optimizer corpus
                 model adaptor embedder)))))
              (files w)
       else files w)"
  using assms
  by (simp add: save_def with_identifier_cols_def df_copy_def assign_def Let_def to_csv_def)


text \<open>
  C4: on a Manager that has no output path, \<open>save\<close> raises \<open>ValueError\<close>, and the file
  system it leaves is the one it found.
\<close>

theorem save_without_path_raises:
  assumes "path self = None"
  shows "fst (save self columns w scores optimizer corpus model adaptor embedder) = Inl ValueError \<and>
    files (snd (save self columns w scores optimizer corpus model adaptor embedder)) = files w"
  using assms
  by (simp add: save_def with_identifier_cols_def df_copy_def assign_def Let_def)

theorem save_without_path_raises_witness:
  "fst (save (example_manager\<lparr>path := None\<rparr>) example_columns example_world 0 ''o''
          example_corpus ''m'' ''a'' ''e'') = Inl ValueError \<and>
   files (snd (save (example_manager\<lparr>path := None\<rparr>) example_columns example_world 0 ''o''
          example_corpus ''m'' ''a'' ''e'')) = [([''out''], Directory)]"
  using save_without_path_raises [of "example_manager\<lparr>path := None\<rparr>" example_columns
      example_world 0 "''o''" example_corpus "''m''" "''a''" "''e''"]
  by (simp add: example_world_def)



section \<open>Identifier columns and the start time\<close>

text \<open>
  C9: \<open>with_identifier_cols\<close> does not change the table it is given. It returns the run
  identity and a new table object, the augmented copy; the given object, and every
  other object that existed, holds after the call what it held before.
\<close>

theorem with_identifier_cols_keeps_input:
  assumes "df < fresh w"
  shows "case with_identifier_cols self columns w df optimizer corpus model adaptor embedder of
    (md5', df', w') \<Rightarrow>
      md5' = md5 optimizer corpus model adaptor embedder (start self) \<and>
      df' \<noteq> df \<and> frames w' df = frames w df \<and>
      (\<forall>r. r < fresh w \<longrightarrow> frames w' r = frames w r) \<and>
      files w' = files w \<and>
      frames w' df' = with_columns (frames w df)
        [(OPTIMIZER columns, optimizer), (MODEL columns, model), (ADAPTOR columns, adaptor),
         (INDEX columns, stateful_index.index (corpus.index corpus)),
         (STORAGE columns, storage corpus), (EMBEDDER columns, embedder),
         (TIME columns, start self),
         (MD5 columns, md5 optimizer corpus model adaptor embedder (start self))]"
  using assms
  by (simp add: with_identifier_cols_def df_copy_def assign_def Let_def with_columns_def)

theorem with_identifier_cols_keeps_input_witness:
  "(case with_identifier_cols example_manager example_columns example_world 0 ''o''
      example_corpus ''m'' ''a'' ''e'' of
    (md5', df', w') \<Rightarrow>
      md5' = ''4fa8284bcb39dc4db6ac8484e30d5724'' \<and> df' = 1 \<and>
      frames w' 0 = example_table \<and>
      frames w' 1 =
        \<lparr>nrows = 2,
         data = [(''score'', [Number 1, Number 2]), (''optimizer'', [Text ''o'', Text ''o'']),
           (''model'', [Text ''m'', Text ''m'']), (''adaptor'', [Text ''a'', Text ''a'']),
           (''index'', [Text ''i'', Text ''i'']), (''storage'', [Text ''s'', Text ''s'']),
           (''embedder'', [Text ''e'', Text ''e'']),
           (''time'', [Text ''2024-11-12-13-14-15'', Text ''2024-11-12-13-14-15'']),
           (''md5'', [Text ''4fa8284bcb39dc4db6ac8484e30d5724'',
              Text ''4fa8284bcb39dc4db6ac8484e30d5724''])]\<rparr>)"
proof -
  have f: "(0 :: nat) < fresh example_world"
    by (simp add: example_world_def)
  have st: "start example_manager = ''2024-11-12-13-14-15''"
    by (simp add: example_manager_def)
  have fr: "frames example_world 0 = example_table" "fresh example_world = 1"
    by (simp_all add: example_world_def)
  have cs: "stateful_index.index (corpus.index example_corpus) = ''i''"
    "storage example_corpus = ''s''"
    by (simp_all add: example_corpus_def)
  have cn: "OPTIMIZER example_columns = ''optimizer''" "MODEL example_columns = ''model''"
    "ADAPTOR example_columns = ''adaptor''" "INDEX example_columns = ''index''"
    "STORAGE example_columns = ''storage''" "EMBEDDER example_columns = ''embedder''"
    "TIME example_columns = ''time''" "MD5 example_columns = ''md5''"
    by (simp_all add: example_columns_def)
  have aug: "with_columns example_table
      [(''optimizer'', ''o''), (''model'', ''m''), (''adaptor'', ''a''), (''index'', ''i''),
       (''storage'', ''s''), (''embedder'', ''e''), (''time'', ''2024-11-12-13-14-15''),
       (''md5'', ''4fa8284bcb39dc4db6ac8484e30d5724'')] =
    \<lparr>nrows = 2,
     data = [(''score'', [Number 1, Number 2]), (''optimizer'', [Text ''o'', Text ''o'']),
       (''model'', [Text ''m'', Text ''m'']), (''adaptor'', [Text ''a'', Text ''a'']),
       (''index'', [Text ''i'', Text ''i'']), (''storage'', [Text ''s'', Text ''s'']),
       (''embedder'', [Text ''e'', Text ''e'']),
       (''time'', [Text ''2024-11-12-13-14-15'', Text ''2024-11-12-13-14-15'']),
       (''md5'', [Text ''4fa8284bcb39dc4db6ac8484e30d5724'',
          Text ''4fa8284bcb39dc4db6ac8484e30d5724''])]\<rparr>"
    by (simp add: with_columns_def example_table_def numeral_2_eq_2)
  obtain m d w' where r: "with_identifier_cols example_manager example_columns example_world 0
      ''o'' example_corpus ''m'' ''a'' ''e'' = (m, d, w')"
    by (rule prod_cases3)
  then have d: "d = 1"
    by (simp add: with_identifier_cols_def df_copy_def Let_def fr)
  from with_identifier_cols_keeps_input [OF f, where self = example_manager
      and columns = example_columns and optimizer = "''o''" and corpus = example_corpus
      and model = "''m''" and adaptor = "''a''" and embedder = "''e''"]
  have "m = ''4fa8284bcb39dc4db6ac8484e30d5724''" and "frames w' 0 = example_table"
    and "frames w' d = with_columns example_table
      [(''optimizer'', ''o''), (''model'', ''m''), (''adaptor'', ''a''), (''index'', ''i''),
       (''storage'', ''s''), (''embedder'', ''e''), (''time'', ''2024-11-12-13-14-15''),
       (''md5'', ''4fa8284bcb39dc4db6ac8484e30d5724'')]"
    by (simp_all add: r st md5_example_o fr cs cn)
  with d show ?thesis
    by (simp add: r aug)
qed

section \<open>Loading\<close>

lemma read_all_tables:
  "list_all2 (\<lambda>q t. node_at fs q = Some (CsvFile t)) qs ts \<Longrightarrow> read_all fs qs = Inr ts"
  by (induction rule: list_all2_induct) (simp_all add: read_csv_def)

text \<open>
  C3: \<open>Manager.load\<close> raises \<open>ValueError\<close> on a path that does not exist and on a
  directory that has no entry matching \<open>*.csv\<close>; on a directory whose entries matching
  \<open>*.csv\<close> are result files, at least one, it returns the concatenation of their
  tables, in the order of the directory.
\<close>

theorem load_raises_or_concatenates:
  "(\<not> path_exists fs p \<longrightarrow> load fs p = Inl ValueError) \<and>
   (is_dir fs p \<and> glob_csv fs p = [] \<longrightarrow> load fs p = Inl ValueError) \<and>
   (is_dir fs p \<and> glob_csv fs p \<noteq> [] \<and>
      list_all2 (\<lambda>q t. node_at fs q = Some (CsvFile t)) (glob_csv fs p) ts \<longrightarrow>
    load fs p = Inr (pd_concat ts))"
proof (intro conjI impI)
  assume "\<not> path_exists fs p"
  then have "glob_csv fs p = []"
    by (simp add: glob_csv_def is_dir_def path_exists_def)
  then show "load fs p = Inl ValueError"
    by (simp add: load_def)
next
  assume "is_dir fs p \<and> glob_csv fs p = []"
  then show "load fs p = Inl ValueError"
    by (simp add: load_def)
next
  assume a: "is_dir fs p \<and> glob_csv fs p \<noteq> [] \<and>
    list_all2 (\<lambda>q t. node_at fs q = Some (CsvFile t)) (glob_csv fs p) ts"
  then have "read_all fs (glob_csv fs p) = Inr ts"
    by (simp add: read_all_tables)
  moreover from a have "ts \<noteq> []"
    by (auto dest: list_all2_lengthD)
  ultimately show "load fs p = Inr (pd_concat ts)"
    by (simp add: load_def)
qed

theorem load_raises_or_concatenates_witness:
  "load example_fs [''missing''] = Inl ValueError \<and>
   load example_fs [''empty''] = Inl ValueError \<and>
   load example_fs [''out''] =
     Inr \<lparr>nrows = 4,
          data = [(''score'', [Number 1, Number 4, Number 2, Number 3]),
                  (''md5'', [Text ''a'', Text ''a'', NaN, NaN])]\<rparr>"
proof -
  have m: "\<not> path_exists example_fs [''missing'']"
    by (simp add: path_exists_def node_at_def example_fs_def)
  have e: "is_dir example_fs [''empty''] \<and> glob_csv example_fs [''empty''] = []"
    by (simp add: glob_csv_example_empty) (simp add: is_dir_def node_at_def example_fs_def)
  have o: "is_dir example_fs [''out''] \<and> glob_csv example_fs [''out''] \<noteq> [] \<and>
    list_all2 (\<lambda>q t. node_at example_fs q = Some (CsvFile t)) (glob_csv example_fs [''out''])
      [\<lparr>nrows = 2, data = [(''score'', [Number 1, Number 4]), (''md5'', [Text ''a'', Text ''a''])]\<rparr>,
       \<lparr>nrows = 2, data = [(''score'', [Number 2, Number 3])]\<rparr>]"
    by (simp add: glob_csv_example_out) (simp add: is_dir_def node_at_def example_fs_def)
  show ?thesis
    using load_raises_or_concatenates [of example_fs "[''missing'']"]
      load_raises_or_concatenates [of example_fs "[''empty'']"]
      load_raises_or_concatenates [of example_fs "[''out'']"
        "[\<lparr>nrows = 2, data = [(''score'', [Number 1, Number 4]), (''md5'', [Text ''a'', Text ''a''])]\<rparr>,
          \<lparr>nrows = 2, data = [(''score'', [Number 2, Number 3])]\<rparr>]"]
      m e o
    by (simp add: pd_concat_example)
qed

section \<open>The start time\<close>

text \<open>
  C10: the start time of a Manager is the reading of the clock at its construction.
  \<open>with_identifier_cols\<close> and \<open>save\<close> take the time from the Manager and not from the
  clock: in any two states, whatever their clocks and tables, the run identity that
  \<open>with_identifier_cols\<close> returns for given descriptors is the same, the digest of the
  descriptors and the start time, and a \<open>save\<close> that succeeds writes the file of that
  name.
\<close>

theorem manager_start_time_fixed:
  "(Manager_init presets p w0 = Inr (self, w1) \<longrightarrow> start self = strftime (now w0)) \<and>
   fst (with_identifier_cols self columns w df optimizer corpus model adaptor embedder) =
     md5 optimizer corpus model adaptor embedder (start self) \<and>
   fst (with_identifier_cols self columns w' df' optimizer corpus model adaptor embedder) =
     fst (with_identifier_cols self columns w df optimizer corpus model adaptor embedder) \<and>
   (path self = Some q \<and>
    fst (save self columns w df optimizer corpus model adaptor embedder) = Inr () \<longrightarrow>
    (\<exists>t. node_at (files (snd (save self columns w df optimizer corpus model adaptor embedder)))
       (q @ [md5 optimizer corpus model adaptor embedder (start self) @ ''.csv'']) =
       Some (CsvFile t)))"
proof (intro conjI impI)
  assume "Manager_init presets p w0 = Inr (self, w1)"
  then show "start self = strftime (now w0)"
    by (auto simp: Manager_init_def current_def split: option.splits if_splits sum.splits)
next
  show "fst (with_identifier_cols self columns w df optimizer corpus model adaptor embedder) =
     md5 optimizer corpus model adaptor embedder (start self)"
    by (simp add: with_identifier_cols_def df_copy_def Let_def)
next
  show "fst (with_identifier_cols self columns w' df' optimizer corpus model adaptor embedder) =
     fst (with_identifier_cols self columns w df optimizer corpus model adaptor embedder)"
    by (simp add: with_identifier_cols_def df_copy_def Let_def)
next
  assume a: "path self = Some q \<and>
    fst (save self columns w df optimizer corpus model adaptor embedder) = Inr ()"
  then have p: "path self = Some q" by simp
  from save_with_path [OF p, of columns w df optimizer corpus model adaptor embedder] a
  show "\<exists>t. node_at (files (snd (save self columns w df optimizer corpus model adaptor embedder)))
       (q @ [md5 optimizer corpus model adaptor embedder (start self) @ ''.csv'']) =
       Some (CsvFile t)"
    by (auto simp: node_at_set_item split: if_splits)
qed


theorem manager_start_time_fixed_witness:
  "Manager_init (\<lambda>ix res. Inl Fatal) (Some [''out'']) (example_world\<lparr>files := []\<rparr>) =
     Inr (example_manager, example_world) \<and>
   start example_manager = strftime (now (example_world\<lparr>files := []\<rparr>)) \<and>
   fst (with_identifier_cols example_manager example_columns
     (example_world\<lparr>now := \<lparr>year = 2031, month = 12, day = 30, hour = 23, minute = 59,
        second = 58\<rparr>\<rparr>)
     0 ''o'' example_corpus ''m'' ''a'' ''e'') =
     md5 ''o'' example_corpus ''m'' ''a'' ''e'' (start example_manager) \<and>
   md5 ''o'' example_corpus ''m'' ''a'' ''e'' (start example_manager) =
     ''4fa8284bcb39dc4db6ac8484e30d5724'' \<and>
   fst (save example_manager example_columns example_world 0 ''o'' example_corpus
     ''m'' ''a'' ''e'') = Inr () \<and>
   (\<exists>t. node_at (files (snd (save example_manager example_columns example_world 0 ''o''
       example_corpus ''m'' ''a'' ''e'')))
     ([''out''] @ [md5 ''o'' example_corpus ''m'' ''a'' ''e'' (start example_manager) @ ''.csv'']) =
     Some (CsvFile t))"
proof -
  have i: "Manager_init (\<lambda>ix res. Inl Fatal) (Some [''out'']) (example_world\<lparr>files := []\<rparr>) =
     Inr (example_manager, example_world)"
    by (simp add: Manager_init_def example_world_def example_manager_def path_exists_def
        is_dir_def node_at_def mkdir_def current_def strftime_example)
  have p: "path example_manager = Some [''out'']"
    by (simp add: example_manager_def)
  have d: "is_dir (files example_world) [''out'']"
    by (simp add: is_dir_def node_at_def example_world_def)
  have n: "node_at (files example_world) q \<noteq> Some Directory" if "q \<noteq> [''out'']" "q \<noteq> []" for q
    using that by (simp add: node_at_def example_world_def)
  have s: "fst (save example_manager example_columns example_world 0 ''o'' example_corpus
     ''m'' ''a'' ''e'') = Inr ()"
    using save_with_path [OF p, of example_columns example_world 0 "''o''" example_corpus
      "''m''" "''a''" "''e''"] d n
    by simp
  have m: "md5 ''o'' example_corpus ''m'' ''a'' ''e'' (start example_manager) =
     ''4fa8284bcb39dc4db6ac8484e30d5724''"
    by (simp add: example_manager_def md5_example_o)
  note T1 = manager_start_time_fixed [where presets = "\<lambda>ix res. Inl Fatal"
      and p = "Some [''out'']" and ?w0.0 = "example_world\<lparr>files := []\<rparr>"
      and self = example_manager and ?w1.0 = example_world and columns = example_columns
      and w = "example_world\<lparr>now := \<lparr>year = 2031, month = 12, day = 30, hour = 23,
        minute = 59, second = 58\<rparr>\<rparr>"
      and df = 0 and optimizer = "''o''" and corpus = example_corpus and model = "''m''"
      and adaptor = "''a''" and embedder = "''e''"]
  note T2 = manager_start_time_fixed [where self = example_manager
      and columns = example_columns and w = example_world and df = 0 and optimizer = "''o''"
      and corpus = example_corpus and model = "''m''" and adaptor = "''a''"
      and embedder = "''e''" and q = "[''out'']"]
  from T1 i have a: "start example_manager = strftime (now (example_world\<lparr>files := []\<rparr>))"
    by blast
  from T1 have b: "fst (with_identifier_cols example_manager example_columns
     (example_world\<lparr>now := \<lparr>year = 2031, month = 12, day = 30, hour = 23, minute = 59,
        second = 58\<rparr>\<rparr>)
     0 ''o'' example_corpus ''m'' ''a'' ''e'') =
     md5 ''o'' example_corpus ''m'' ''a'' ''e'' (start example_manager)"
    by blast
  from T2 p s have c: "\<exists>t. node_at (files (snd (save example_manager example_columns
       example_world 0 ''o'' example_corpus ''m'' ''a'' ''e'')))
     ([''out''] @ [md5 ''o'' example_corpus ''m'' ''a'' ''e'' (start example_manager) @ ''.csv'']) =
     Some (CsvFile t)"
    by blast
  from i a b m s c show ?thesis
    by (intro conjI)
qed

section \<open>The boundary of an index\<close>

lemma shape1_normalize: "shape1 (normalize e) = shape1 e"
  by (simp add: normalize_def)

lemma Boundary_dims_boundaries: "Boundary_dims (boundaries e) = shape1 e"
  by (simp add: Boundary_dims_def boundaries_def)

text \<open>
  C6: for a matrix of \<open>N\<close> rows and \<open>D\<close> columns, \<open>N\<close> and \<open>D\<close> at least 1, a supported
  distance and a faiss library that builds the index, \<open>FaissIndex\<close> constructs an index
  (the assertion of \<open>__init__\<close> holds) whose boundary has \<open>D\<close> dimensions, and this is
  \<open>dims\<close>, the width of the embeddings that the index holds.
\<close>

theorem FaissIndex_boundary_dims:
  assumes "matrix n d e" and "1 \<le> n" and "1 \<le> d"
    and "Distance_lookup names dist_arg = Inr m"
    and "faiss d s (faiss_metric m) (if normalized then normalize e else e) cuda = Inr h"
  shows "\<exists>self. FaissIndex_init names faiss e dist_arg normalized s cuda batch = Inr self \<and>
    Boundary_dims (boundary self) = d \<and>
    FaissIndex_dims self = d \<and>
    Boundary_dims (boundary self) = shape1 (FaissIndex_data self) \<and>
    distance self = m"
proof -
  let ?e = "if normalized then normalize e else e"
  from assms(1) have w: "shape1 ?e = d"
    by (simp add: matrix_def shape1_normalize)
  have b: "Boundary_dims (boundaries ?e) = shape1 ?e"
    by (rule Boundary_dims_boundaries)
  from assms(5) w have i: "init_index faiss ?e m s cuda = Inr h"
    by (simp add: init_index_def)
  have "FaissIndex_init names faiss e dist_arg normalized s cuda batch =
      Inr \<lparr>embeddings = ?e, batch_size = batch, distance = m, boundary = boundaries ?e,
           index_string = s, faiss_index = h\<rparr>"
    unfolding FaissIndex_init_def Let_def using assms(4) b i by simp
  with w b show ?thesis
    by (simp add: FaissIndex_dims_def FaissIndex_data_def)
qed

theorem FaissIndex_boundary_dims_witness:
  "\<exists>self. FaissIndex_init (\<lambda>s. if s = ''L2'' then Some L2 else None)
      (\<lambda>d s m e cuda. Inr (d, s, m))
      \<lparr>shape1 = 2, rows = [[0, 0], [3, 4]]\<rparr> (Name ''L2'') True ''Flat'' False 64 = Inr self \<and>
    Boundary_dims (boundary self) = 2 \<and> FaissIndex_dims self = 2 \<and> distance self = L2"
proof -
  let ?e = "\<lparr>shape1 = 2, rows = [[0, 0], [3, 4]]\<rparr>"
  let ?names = "\<lambda>s. if s = ''L2'' then Some L2 else None"
  let ?faiss = "\<lambda>d s m e cuda. Inr (d, s, m) :: error + nat \<times> string \<times> metric_type"
  have 1: "matrix 2 2 ?e"
    by (simp add: matrix_def)
  have 2: "Distance_lookup ?names (Name ''L2'') = Inr L2"
    by (simp add: Distance_lookup_def)
  have 3: "?faiss 2 ''Flat'' (faiss_metric L2) (if True then normalize ?e else ?e) False =
      Inr (2, ''Flat'', METRIC_L2)"
    by simp
  have "(1::nat) \<le> 2"
    by simp
  from FaissIndex_boundary_dims [where faiss = ?faiss and batch = 64, OF 1 this this 2 3]
  show ?thesis
    by auto
qed

end
